theory Spec2Isabelle
  imports Main
begin

section \<open>JavaScript values, errors and error contexts\<close>

text \<open>
  The library is TypeScript; at run time every value is a JavaScript value, and
  \<open>null\<close> and \<open>undefined\<close> are values like any other. A Result tuple slot, a
  handler's return value, a metadata entry and a response body are all of type
  \<open>jsval\<close>. Numbers are modelled as integers (the code only handles HTTP status codes);
  an array carries its elements only, an object its own string-keyed properties in
  insertion order.

  A \<open>Date\<close> is identified with its ISO-8601 rendering, so \<open>toISOString\<close> is the
  identity; the clock reading \<open>new Date()\<close> is an input of every function that takes one.
\<close>

type_synonym date = string

text \<open>The classes of \<open>src/core/errors.ts\<close>: \<open>AppError\<close> and its eight subclasses.\<close>

datatype app_class =
    AppErrorClass
  | ValidationErrorClass
  | NotFoundErrorClass
  | UnauthorizedErrorClass
  | ForbiddenErrorClass
  | ConflictErrorClass
  | InternalErrorClass
  | ExternalServiceErrorClass
  | TimeoutErrorClass

text \<open>
  What \<open>HttpException.getResponse()\<close> returns (\<open>string | object\<close>), and the class of an
  error object, which decides \<open>instanceof\<close>: a plain \<open>Error\<close>, the host framework's
  \<open>HttpException\<close> (with what \<open>getStatus()\<close> and \<open>getResponse()\<close> return), or
  \<open>AppError\<close> and its subclasses.
\<close>

datatype 'v http_response = RespString string | RespObject "(string \<times> 'v) list"

datatype 'v err_class =
    ErrorClass
  | HttpExceptionClass int "'v http_response"
  | AppClass app_class

text \<open>
  An optional property of an object (\<open>context?: ErrorContext\<close>): the object has no
  such property, has it with the value \<open>undefined\<close>, or has it with a value. The
  operator \<open>in\<close> tells the first case from the other two; reading the property
  gives \<open>undefined\<close> in the first two.
\<close>

datatype 'a property = Absent | Undefined | Present 'a

text \<open>
  \<open>js_error\<close> is an \<open>Error\<close> object seen through the \<open>EnhancedError\<close> interface of
  \<open>src/types/result.types.ts\<close>. \<open>errContext\<close> is its \<open>context\<close> property. The
  code only ever reads the value of \<open>stack\<close>, \<open>originalError\<close> and
  \<open>isOperational\<close> (\<open>isOperationalError\<close> tests \<open>'isOperational' in error\<close> and
  then \<open>=== true\<close>, which an undefined value fails like an absent property), so for
  these \<open>None\<close> stands for a property that is absent or \<open>undefined\<close>.
  \<open>ErrorContext\<close> is the interface of the same name, every field optional.
\<close>

datatype jsval =
    JNull
  | JUndefined
  | JBool bool
  | JNum int
  | JStr string
  | JArr "jsval list"
  | JObj "(string \<times> jsval) list"
  | JErr js_error
and js_error =
  JsError
    (cls: "jsval err_class")
    (name: string)
    (message: string)
    (stack: "string option")
    (errContext: "ErrorContext property")
    (originalError: "js_error option")
    (isOperational: "bool option")
and ErrorContext =
  ErrorContext
    (code: "string option")
    (statusCode: "int option")
    (metadata: "(string \<times> jsval) list option")
    (ctxStack: "string option")
    (timestamp: "date option")
    (operation: "string option")

text \<open>
  The value of \<open>error.context\<close> when it is an object: what the optional chaining
  \<open>exception.context?.x\<close> reads from and what \<open>if (enhancedError.context)\<close> tests.
\<close>

definition contextObject :: "js_error \<Rightarrow> ErrorContext option" where
  "contextObject e = (case errContext e of Present c \<Rightarrow> Some c | _ \<Rightarrow> None)"

section \<open>The Result tuple (\<open>src/types/result.types.ts\<close>, \<open>src/core/result.ts\<close>)\<close>

text \<open>
  \<open>Result<T, E> = [T, null] | [null, E]\<close>: a two-element tuple \<open>[data, error]\<close>.
  The pair \<open>(d, e)\<close> is the tuple \<open>[d, e]\<close>; \<open>tuple\<close> gives the array a handler
  returns to the framework.
\<close>

type_synonym result = "jsval \<times> jsval"


definition Ok :: "jsval \<Rightarrow> result" where
  "Ok data = (data, JNull)"

definition Err :: "jsval \<Rightarrow> result" where
  "Err error = (JNull, error)"

text \<open>\<open>hasError\<close>: \<open>result[1] !== null\<close>.\<close>

definition hasError :: "result \<Rightarrow> bool" where
  "hasError r = (snd r \<noteq> JNull)"

text \<open>\<open>isSuccess\<close>: \<open>result[0] !== null && result[1] === null\<close>.\<close>

definition isSuccess :: "result \<Rightarrow> bool" where
  "isSuccess r = (fst r \<noteq> JNull \<and> snd r = JNull)"

text \<open>
  \<open>combine\<close>: the \<open>for\<close> loop over \<open>results\<close> with the accumulator \<open>data\<close>;
  \<open>return [null, error]\<close> leaves the loop at the first tuple whose error slot is not
  \<open>null\<close>, \<open>data.push(value)\<close> appends otherwise, and \<open>Ok(data)\<close> ends it.
\<close>

fun combine_loop :: "jsval list \<Rightarrow> result list \<Rightarrow> result" where
  "combine_loop data [] = Ok (JArr data)"
| "combine_loop data (r # results) =
     (if snd r \<noteq> JNull then (JNull, snd r)
      else combine_loop (data @ [fst r]) results)"

definition combine :: "result list \<Rightarrow> result" where
  "combine results = combine_loop [] results"

section \<open>The error taxonomy (\<open>src/core/errors.ts\<close>)\<close>

text \<open>\<open>this.constructor.name\<close>.\<close>

fun className :: "app_class \<Rightarrow> string" where
  "className AppErrorClass = ''AppError''"
| "className ValidationErrorClass = ''ValidationError''"
| "className NotFoundErrorClass = ''NotFoundError''"
| "className UnauthorizedErrorClass = ''UnauthorizedError''"
| "className ForbiddenErrorClass = ''ForbiddenError''"
| "className ConflictErrorClass = ''ConflictError''"
| "className InternalErrorClass = ''InternalError''"
| "className ExternalServiceErrorClass = ''ExternalServiceError''"
| "className TimeoutErrorClass = ''TimeoutError''"

text \<open>
  The object spreads of the constructors. \<open>{...context}\<close> of an absent context is the
  empty object; \<open>{...context, code: c, statusCode: s}\<close> and
  \<open>{...context, timestamp: new Date()}\<close> overwrite the named fields and keep the others.
\<close>

definition spreadContext :: "ErrorContext option \<Rightarrow> ErrorContext" where
  "spreadContext ctx =
     (case ctx of None \<Rightarrow> ErrorContext None None None None None None | Some c \<Rightarrow> c)"

definition withCode :: "string \<Rightarrow> int \<Rightarrow> ErrorContext option \<Rightarrow> ErrorContext" where
  "withCode c s ctx =
     (let x = spreadContext ctx
      in ErrorContext (Some c) (Some s) (metadata x) (ctxStack x) (timestamp x) (operation x))"

definition withTimestamp :: "date \<Rightarrow> ErrorContext option \<Rightarrow> ErrorContext" where
  "withTimestamp now ctx =
     (let x = spreadContext ctx
      in ErrorContext (code x) (statusCode x) (metadata x) (ctxStack x) (Some now) (operation x))"

text \<open>
  The constructor of \<open>AppError\<close>. Besides the source's parameters (\<open>message\<close>,
  \<open>context\<close>, \<open>originalError\<close>, \<open>isOperational\<close>) it takes what the run time
  supplies: the class being constructed (\<open>this.constructor\<close>), the clock reading
  \<open>new Date()\<close> and the captured stack trace.
\<close>

definition AppError ::
  "app_class \<Rightarrow> date \<Rightarrow> string option \<Rightarrow> string \<Rightarrow> ErrorContext option \<Rightarrow> js_error option
     \<Rightarrow> bool \<Rightarrow> js_error" where
  "AppError k now trace msg ctx orig isOp =
     JsError (AppClass k) (className k) msg trace (Present (withTimestamp now ctx)) orig (Some isOp)"

definition ValidationError ::
  "date \<Rightarrow> string option \<Rightarrow> string \<Rightarrow> ErrorContext option \<Rightarrow> js_error option \<Rightarrow> js_error" where
  "ValidationError now trace msg ctx orig =
     AppError ValidationErrorClass now trace msg (Some (withCode ''VALIDATION_ERROR'' 400 ctx)) orig True"

definition NotFoundError ::
  "date \<Rightarrow> string option \<Rightarrow> string \<Rightarrow> ErrorContext option \<Rightarrow> js_error option \<Rightarrow> js_error" where
  "NotFoundError now trace msg ctx orig =
     AppError NotFoundErrorClass now trace msg (Some (withCode ''NOT_FOUND'' 404 ctx)) orig True"

definition UnauthorizedError ::
  "date \<Rightarrow> string option \<Rightarrow> string \<Rightarrow> ErrorContext option \<Rightarrow> js_error option \<Rightarrow> js_error" where
  "UnauthorizedError now trace msg ctx orig =
     AppError UnauthorizedErrorClass now trace msg (Some (withCode ''UNAUTHORIZED'' 401 ctx)) orig True"

definition ForbiddenError ::
  "date \<Rightarrow> string option \<Rightarrow> string \<Rightarrow> ErrorContext option \<Rightarrow> js_error option \<Rightarrow> js_error" where
  "ForbiddenError now trace msg ctx orig =
     AppError ForbiddenErrorClass now trace msg (Some (withCode ''FORBIDDEN'' 403 ctx)) orig True"

definition ConflictError ::
  "date \<Rightarrow> string option \<Rightarrow> string \<Rightarrow> ErrorContext option \<Rightarrow> js_error option \<Rightarrow> js_error" where
  "ConflictError now trace msg ctx orig =
     AppError ConflictErrorClass now trace msg (Some (withCode ''CONFLICT'' 409 ctx)) orig True"

definition InternalError ::
  "date \<Rightarrow> string option \<Rightarrow> string \<Rightarrow> ErrorContext option \<Rightarrow> js_error option \<Rightarrow> js_error" where
  "InternalError now trace msg ctx orig =
     AppError InternalErrorClass now trace msg (Some (withCode ''INTERNAL_ERROR'' 500 ctx)) orig False"

definition ExternalServiceError ::
  "date \<Rightarrow> string option \<Rightarrow> string \<Rightarrow> ErrorContext option \<Rightarrow> js_error option \<Rightarrow> js_error" where
  "ExternalServiceError now trace msg ctx orig =
     AppError ExternalServiceErrorClass now trace msg
       (Some (withCode ''EXTERNAL_SERVICE_ERROR'' 502 ctx)) orig True"

definition TimeoutError ::
  "date \<Rightarrow> string option \<Rightarrow> string \<Rightarrow> ErrorContext option \<Rightarrow> js_error option \<Rightarrow> js_error" where
  "TimeoutError now trace msg ctx orig =
     AppError TimeoutErrorClass now trace msg (Some (withCode ''TIMEOUT'' 408 ctx)) orig True"

section \<open>Error helpers of \<open>src/core/result.ts\<close>\<close>

text \<open>
  \<open>enhanceError\<close>: \<open>'context' in error\<close>, true of every error that has the
  property, whatever its value, returns the error itself; otherwise
  \<open>new AppError(error.message, context, error)\<close>, with \<open>isOperational\<close> at its
  default \<open>true\<close>.
\<close>

definition enhanceError ::
  "date \<Rightarrow> string option \<Rightarrow> js_error \<Rightarrow> ErrorContext option \<Rightarrow> js_error" where
  "enhanceError now trace error ctx =
     (if errContext error \<noteq> Absent then error
      else AppError AppErrorClass now trace (message error) ctx (Some error) True)"

text \<open>
  \<open>isOperationalError(error: any)\<close>: an object with an \<open>isOperational\<close> property whose
  value is \<open>true\<close>; everything else, \<open>null\<close> and primitives included, is not
  operational.
\<close>

fun isOperationalError :: "jsval \<Rightarrow> bool" where
  "isOperationalError (JErr e) = (isOperational e = Some True)"
| "isOperationalError (JObj ps) = (map_of ps ''isOperational'' = Some (JBool True))"
| "isOperationalError _ = False"

section \<open>The logger (\<open>ErrorLogger.logError\<close>)\<close>

text \<open>
  The call \<open>logError\<close> makes on the Pino logger: the method (\<open>fatal\<close> or \<open>error\<close>),
  the log object and the message. A log object property holds the
  \<open>{name, message, stack}\<close> summary of an error, a value of the additional context, or
  an error context.
\<close>

datatype log_level = Fatal | ErrorLevel

datatype log_value =
    LError string string "string option"
  | LValue jsval
  | LContext ErrorContext

record log_call =
  level :: log_level
  logObject :: "(string \<times> log_value) list"
  logMessage :: string

text \<open>Assignment \<open>obj[k] = v\<close>: an existing key keeps its place, a new one goes last.\<close>

fun setProp :: "string \<Rightarrow> 'v \<Rightarrow> (string \<times> 'v) list \<Rightarrow> (string \<times> 'v) list" where
  "setProp k v [] = [(k, v)]"
| "setProp k v (p # ps) = (if fst p = k then (k, v) # ps else p # setProp k v ps)"

text \<open>\<open>{...obj, ...props}\<close>.\<close>

definition spreadInto :: "(string \<times> 'v) list \<Rightarrow> (string \<times> 'v) list \<Rightarrow> (string \<times> 'v) list" where
  "spreadInto obj props = foldl (\<lambda>acc p. setProp (fst p) (snd p) acc) obj props"

definition errorSummary :: "js_error \<Rightarrow> log_value" where
  "errorSummary e = LError (name e) (message e) (stack e)"

definition logError :: "js_error \<Rightarrow> (string \<times> jsval) list \<Rightarrow> log_call" where
  "logError error additionalContext =
     (let logObject0 =
            spreadInto [(''error'', errorSummary error)]
              (map (\<lambda>p. (fst p, LValue (snd p))) additionalContext);
          logObject1 =
            (case contextObject error of
               Some c \<Rightarrow> setProp ''context'' (LContext c) logObject0
             | None \<Rightarrow> logObject0);
          logObject2 =
            (case originalError error of
               Some orig \<Rightarrow> setProp ''originalError'' (errorSummary orig) logObject1
             | None \<Rightarrow> logObject1)
      in if isOperational error = Some False
         then \<lparr>level = Fatal, logObject = logObject2, logMessage = ''Programming Error''\<rparr>
         else \<lparr>level = ErrorLevel, logObject = logObject2, logMessage = ''Operational Error''\<rparr>)"

section \<open>The exception filter (\<open>GoStyleExceptionFilter.catch\<close>)\<close>

text \<open>
  The exception that reaches \<open>catch\<close> is an error object, as its signature says
  (\<open>Error | HttpException | AppError\<close>); the request contributes \<open>request.url\<close>
  and \<open>request.method\<close>, and the response is what
  \<open>response.status(status).json(errorResponse)\<close> is given.
\<close>

text \<open>JavaScript truthiness and \<open>a || b\<close>; reading a property of an object.\<close>

fun truthy :: "jsval \<Rightarrow> bool" where
  "truthy JNull = False"
| "truthy JUndefined = False"
| "truthy (JBool b) = b"
| "truthy (JNum n) = (n \<noteq> 0)"
| "truthy (JStr s) = (s \<noteq> [])"
| "truthy (JArr xs) = True"
| "truthy (JObj ps) = True"
| "truthy (JErr e) = True"

definition js_or :: "jsval \<Rightarrow> jsval \<Rightarrow> jsval" where
  "js_or a b = (if truthy a then a else b)"

definition getProp :: "(string \<times> jsval) list \<Rightarrow> string \<Rightarrow> jsval" where
  "getProp ps k = (case map_of ps k of None \<Rightarrow> JUndefined | Some v \<Rightarrow> v)"

record request =
  url :: string
  reqMethod :: string

record response =
  status :: int
  body :: jsval

text \<open>
  Lines 25 to 41 of the filter: the defaults, and what an \<open>HttpException\<close> overrides. The result is
  \<open>(status, message, code)\<close>.
\<close>

definition httpExceptionFields :: "js_error \<Rightarrow> int \<times> jsval \<times> jsval" where
  "httpExceptionFields exception =
     (case cls exception of
        HttpExceptionClass st resp \<Rightarrow>
          (case resp of
             RespString s \<Rightarrow> (st, JStr s, JStr ''INTERNAL_ERROR'')
           | RespObject ps \<Rightarrow>
               (st,
                js_or (getProp ps ''message'') (JStr ''Internal server error''),
                js_or (getProp ps ''error'') (JStr ''INTERNAL_ERROR'')))
      | _ \<Rightarrow> (500, JStr ''Internal server error'', JStr ''INTERNAL_ERROR''))"

text \<open>\<open>exception instanceof AppError\<close>.\<close>

definition isAppError :: "js_error \<Rightarrow> bool" where
  "isAppError exception = (case cls exception of AppClass k \<Rightarrow> True | _ \<Rightarrow> False)"

text \<open>
  Lines 44 to 48: what an \<open>AppError\<close> overrides. \<open>exception.context?.statusCode || status\<close>
  keeps the earlier status when the context has no status code or has the falsy \<open>0\<close>,
  and likewise for the code and the empty string. The result is
  \<open>(status, message, code, context)\<close>.
\<close>

definition classify :: "js_error \<Rightarrow> int \<times> jsval \<times> jsval \<times> (string \<times> jsval) list" where
  "classify exception =
     (case httpExceptionFields exception of
        (st, msg, cd) \<Rightarrow>
          if isAppError exception then
            ((case contextObject exception of
                Some c \<Rightarrow> (case statusCode c of Some n \<Rightarrow> if n \<noteq> 0 then n else st | None \<Rightarrow> st)
              | None \<Rightarrow> st),
             JStr (message exception),
             (case contextObject exception of
                Some c \<Rightarrow> (case code c of Some s \<Rightarrow> if s \<noteq> [] then JStr s else cd | None \<Rightarrow> cd)
              | None \<Rightarrow> cd),
             (case contextObject exception of
                Some c \<Rightarrow> (case metadata c of Some m \<Rightarrow> m | None \<Rightarrow> [])
              | None \<Rightarrow> []))
          else (st, msg, cd, []))"

text \<open>
  Lines 51 to 63: the additional context of the log call; an error that is not an
  \<open>AppError\<close> is marked \<open>isUnexpected: true\<close>.
\<close>

definition logContext :: "request \<Rightarrow> js_error \<Rightarrow> (string \<times> jsval) list" where
  "logContext req exception =
     (case classify exception of
        (st, msg, cd, ctx) \<Rightarrow>
          [(''path'', JStr (url req)), (''method'', JStr (reqMethod req)), (''statusCode'', JNum st)]
          @ (if isAppError exception then [] else [(''isUnexpected'', JBool True)]))"

text \<open>
  Lines 67 to 80: the response body. \<open>node_env\<close> is \<open>process.env.NODE_ENV\<close>
  (\<open>None\<close> when unset), \<open>now\<close> the clock reading. The \<open>stack\<close> property holds
  \<open>exception.stack\<close>, which is \<open>undefined\<close> for an error without one.
\<close>

definition stackValue :: "js_error \<Rightarrow> jsval" where
  "stackValue exception = (case stack exception of None \<Rightarrow> JUndefined | Some s \<Rightarrow> JStr s)"

definition errorResponse :: "string option \<Rightarrow> date \<Rightarrow> request \<Rightarrow> js_error \<Rightarrow> jsval" where
  "errorResponse node_env now req exception =
     (case classify exception of
        (st, msg, cd, ctx) \<Rightarrow>
          JObj [(''success'', JBool False),
                (''error'',
                 JObj ([(''code'', cd),
                        (''message'', msg),
                        (''statusCode'', JNum st),
                        (''timestamp'', JStr now),
                        (''path'', JStr (url req))]
                       @ (if ctx \<noteq> [] then [(''context'', JObj ctx)] else [])
                       @ (if node_env \<noteq> Some ''production''
                          then [(''stack'', stackValue exception)] else [])))])"

text \<open>
  \<open>catch\<close>, for a filter built on the logger \<open>logger\<close> (the constructor's parameter).
  The logger returns \<open>Inr\<close> of what it logged, or \<open>Inl\<close> of a value it raises. The
  filter calls it outside any \<open>try\<close>, before the response is built, so a raise leaves
  \<open>catch\<close> at once; otherwise \<open>response.status(status).json(errorResponse)\<close> sends the
  response.
\<close>

definition GoStyleExceptionFilter_catch ::
  "(js_error \<Rightarrow> (string \<times> jsval) list \<Rightarrow> jsval + 'l) \<Rightarrow> string option \<Rightarrow> date \<Rightarrow> request
     \<Rightarrow> js_error \<Rightarrow> jsval + ('l \<times> response)" where
  "GoStyleExceptionFilter_catch logger node_env now req exception =
     (case logger exception (logContext req exception) of
        Inl raised \<Rightarrow> Inl raised
      | Inr logged \<Rightarrow>
          Inr (logged,
               \<lparr>status = fst (classify exception),
                body = errorResponse node_env now req exception\<rparr>))"

text \<open>The filter on an \<open>ErrorLogger\<close>, whose \<open>logError\<close> returns.\<close>

definition errorLogger :: "js_error \<Rightarrow> (string \<times> jsval) list \<Rightarrow> jsval + log_call" where
  "errorLogger error additionalContext = Inr (logError error additionalContext)"

text \<open>Reading \<open>body.error.<k>\<close> of a response body, and whether it has the property.\<close>

fun errorField :: "jsval \<Rightarrow> string \<Rightarrow> jsval option" where
  "errorField (JObj ps) k =
     (case map_of ps ''error'' of Some (JObj qs) \<Rightarrow> map_of qs k | _ \<Rightarrow> None)"
| "errorField _ k = None"

text \<open>
  The trace a response body carries: \<open>body.error.stack\<close> when it is a string. A
  property whose value is \<open>undefined\<close> carries none, and \<open>JSON.stringify\<close>, which
  \<open>json()\<close> applies, leaves such a property out.
\<close>

definition stackTrace :: "jsval \<Rightarrow> string option" where
  "stackTrace b = (case errorField b ''stack'' of Some (JStr s) \<Rightarrow> Some s | _ \<Rightarrow> None)"

text \<open>
  A logging collaborator that raises on every call, standing for any injected logger
  whose \<open>logError\<close> does not return.
\<close>

definition failingLogger :: "js_error \<Rightarrow> (string \<times> jsval) list \<Rightarrow> jsval + log_call" where
  "failingLogger error additionalContext = Inl (JStr ''logger unavailable'')"

text \<open>What a run of \<open>catch\<close> sent and what it logged, if it got that far.\<close>

definition sentResponse :: "jsval + ('l \<times> response) \<Rightarrow> response option" where
  "sentResponse outcome = (case outcome of Inl raised \<Rightarrow> None | Inr p \<Rightarrow> Some (snd p))"

definition loggedCall :: "jsval + ('l \<times> response) \<Rightarrow> 'l option" where
  "loggedCall outcome = (case outcome of Inl raised \<Rightarrow> None | Inr p \<Rightarrow> Some (fst p))"

section \<open>The result interceptor (\<open>ResultInterceptor.intercept\<close>)\<close>

text \<open>
  \<open>result && typeof result === 'object' && 'success' in result\<close>: among the values of
  the model only an object with a \<open>success\<close> property; an array or an \<open>Error\<close> has
  none.
\<close>

fun isFormatted :: "jsval \<Rightarrow> bool" where
  "isFormatted (JObj ps) = (''success'' \<in> set (map fst ps))"
| "isFormatted _ = False"

text \<open>\<open>Array.isArray(result) && result.length === 2\<close>, destructured.\<close>

fun asTuple :: "jsval \<Rightarrow> result option" where
  "asTuple (JArr [d, e]) = Some (d, e)"
| "asTuple _ = None"

definition successResponse :: "jsval \<Rightarrow> date \<Rightarrow> jsval" where
  "successResponse d now =
     JObj [(''success'', JBool True), (''data'', d), (''timestamp'', JStr now)]"

text \<open>The function given to \<open>map\<close>: \<open>Inl\<close> is the value it throws.\<close>

definition transformResult :: "date \<Rightarrow> jsval \<Rightarrow> jsval + jsval" where
  "transformResult now res =
     (if isFormatted res then Inr res
      else case asTuple res of
             Some (d, e) \<Rightarrow> if e \<noteq> JNull then Inl e else Inr (successResponse d now)
           | None \<Rightarrow> Inr (successResponse res now))"

text \<open>
  \<open>intercept\<close>: \<open>handled\<close> is what the handler did, \<open>Inr\<close> of its return value or
  \<open>Inl\<close> of what it raised. \<open>map\<close> transforms a returned value; \<open>catchError\<close>
  rethrows whatever was raised, by the handler or by the transformation.
\<close>

definition ResultInterceptor_intercept :: "date \<Rightarrow> jsval + jsval \<Rightarrow> jsval + jsval" where
  "ResultInterceptor_intercept now handled =
     (case (case handled of Inl raised \<Rightarrow> Inl raised | Inr res \<Rightarrow> transformResult now res) of
        Inl raised \<Rightarrow> Inl raised
      | Inr sent \<Rightarrow> Inr sent)"

section \<open>Helper lemmas\<close>

lemma jsval_not_in_own_array: "d \<noteq> JArr [d, x]"
proof
  assume "d = JArr [d, x]"
  then have "size d = size (JArr [d, x])" by simp
  then show False by simp
qed

lemma combine_loop_all_ok:
  "\<forall>r\<in>set rs. snd r = JNull \<Longrightarrow> combine_loop acc rs = Ok (JArr (acc @ map fst rs))"
  by (induction rs arbitrary: acc) auto

lemma combine_loop_first_failure:
  "\<forall>p\<in>set pre. snd p = JNull \<Longrightarrow> snd r \<noteq> JNull \<Longrightarrow>
     combine_loop acc (pre @ r # post) = Err (snd r)"
  by (induction pre arbitrary: acc) (auto simp: Err_def)

lemma combine_loop_hasError:
  "hasError (combine_loop acc rs) \<longleftrightarrow> (\<exists>r\<in>set rs. hasError r)"
  by (induction rs arbitrary: acc) (auto simp: hasError_def Ok_def)

lemma transformResult_pair:
  "transformResult now (JArr [d, e]) = (if e \<noteq> JNull then Inl e else Inr (successResponse d now))"
  by (simp add: transformResult_def)

lemma intercept_returned:
  "ResultInterceptor_intercept now (Inr v) = transformResult now v"
  by (cases "transformResult now v") (simp_all add: ResultInterceptor_intercept_def)

lemma classify_AppError:
  assumes "isAppError e"
  shows "classify e =
    ((case contextObject e of
        Some c \<Rightarrow> (case statusCode c of Some n \<Rightarrow> if n \<noteq> 0 then n else 500 | None \<Rightarrow> 500)
      | None \<Rightarrow> 500),
     JStr (message e),
     (case contextObject e of
        Some c \<Rightarrow> (case code c of Some s \<Rightarrow> if s \<noteq> [] then JStr s else JStr ''INTERNAL_ERROR''
                    | None \<Rightarrow> JStr ''INTERNAL_ERROR'')
      | None \<Rightarrow> JStr ''INTERNAL_ERROR''),
     (case contextObject e of
        Some c \<Rightarrow> (case metadata c of Some m \<Rightarrow> m | None \<Rightarrow> [])
      | None \<Rightarrow> []))"
  using assms
  by (cases "cls e") (simp_all add: classify_def httpExceptionFields_def isAppError_def)

lemma classify_plain:
  assumes "cls e = ErrorClass"
  shows "classify e = (500, JStr ''Internal server error'', JStr ''INTERNAL_ERROR'', [])"
  using assms by (simp add: classify_def httpExceptionFields_def isAppError_def)

lemma errorField_errorResponse:
  "errorField (errorResponse env now req e) k =
     map_of ([(''code'', fst (snd (snd (classify e)))),
              (''message'', fst (snd (classify e))),
              (''statusCode'', JNum (fst (classify e))),
              (''timestamp'', JStr now),
              (''path'', JStr (url req))]
             @ (if snd (snd (snd (classify e))) \<noteq> []
                then [(''context'', JObj (snd (snd (snd (classify e)))))] else [])
             @ (if env \<noteq> Some ''production'' then [(''stack'', stackValue e)] else [])) k"
  by (cases "classify e") (simp add: errorResponse_def)

lemma errorField_stack:
  "errorField (errorResponse env now req e) ''stack'' =
     (if env \<noteq> Some ''production'' then Some (stackValue e) else None)"
  by (simp add: errorField_errorResponse)

lemma catch_sent:
  "GoStyleExceptionFilter_catch logger env now req e = Inr (l, r) \<Longrightarrow>
     logger e (logContext req e) = Inr l
     \<and> r = \<lparr>status = fst (classify e), body = errorResponse env now req e\<rparr>"
  by (auto simp: GoStyleExceptionFilter_catch_def split: sum.splits)

lemma catch_errorLogger:
  "GoStyleExceptionFilter_catch errorLogger env now req e =
     Inr (logError e (logContext req e),
          \<lparr>status = fst (classify e), body = errorResponse env now req e\<rparr>)"
  by (simp add: GoStyleExceptionFilter_catch_def errorLogger_def)

lemma logError_level:
  "level (logError e extra) = (if isOperational e = Some False then Fatal else ErrorLevel)"
  by (simp add: logError_def Let_def)

lemma logError_message:
  "logMessage (logError e extra) =
     (if isOperational e = Some False then ''Programming Error'' else ''Operational Error'')"
  by (simp add: logError_def Let_def)

lemma map_of_setProp: "map_of (setProp k v ps) = (map_of ps)(k \<mapsto> v)"
  by (induction ps) (auto simp: fun_eq_iff)

lemma map_of_spreadInto:
  "map_of (spreadInto obj props) k =
     (case map_of (rev props) k of Some v \<Rightarrow> Some v | None \<Rightarrow> map_of obj k)"
  unfolding spreadInto_def
  by (induction props arbitrary: obj) (auto simp: map_of_setProp split: option.splits)

lemma logError_unexpected:
  "\<not> isAppError e \<Longrightarrow>
     map_of (logObject (logError e (logContext req e))) ''isUnexpected'' = Some (LValue (JBool True))"
  by (cases "classify e")
     (auto simp: logError_def Let_def logContext_def map_of_setProp map_of_spreadInto
           split: option.splits)

lemma logError_expected:
  "isAppError e \<Longrightarrow>
     map_of (logObject (logError e (logContext req e))) ''isUnexpected'' = None"
  by (cases "classify e")
     (auto simp: logError_def Let_def logContext_def map_of_setProp map_of_spreadInto
           split: option.splits)

lemma errorResponse_success_false:
  "(case errorResponse env now req e of JObj ps \<Rightarrow> map_of ps ''success'' | _ \<Rightarrow> None)
     = Some (JBool False)"
  by (cases "classify e") (simp add: errorResponse_def)

section \<open>Properties of the Result predicates\<close>

text \<open>
  C1 (as stated, refuted): for every value \<open>x\<close>, \<open>isSuccess(Ok(x))\<close> holds. The source
  has no \<open>isFailure\<close>; its failure predicate is \<open>hasError\<close>. At \<open>x = null\<close> the
  tuple \<open>Ok(null) = [null, null]\<close> is neither a success nor a failure, and
  \<open>Err(null)\<close> is the same tuple.
\<close>

theorem C1_counterexample:
  "\<not> isSuccess (Ok JNull) \<and> \<not> hasError (Ok JNull) \<and> \<not> hasError (Err JNull)"
  by (simp add: isSuccess_def hasError_def Ok_def Err_def)

text \<open>
  C1 (amended): for every non-null value \<open>x\<close>, \<open>isSuccess(Ok(x))\<close> holds and
  \<open>hasError(Ok(x))\<close> does not; for every non-null error \<open>e\<close>, \<open>hasError(Err(e))\<close>
  holds and \<open>isSuccess(Err(e))\<close> does not; no tuple satisfies both predicates, and a
  tuple satisfies one of them unless both of its slots are \<open>null\<close>.
\<close>

theorem C1_success_failure_disjoint:
  "(x \<noteq> JNull \<longrightarrow> isSuccess (Ok x) \<and> \<not> hasError (Ok x))
   \<and> (e \<noteq> JNull \<longrightarrow> hasError (Err e) \<and> \<not> isSuccess (Err e))
   \<and> \<not> (isSuccess r \<and> hasError r)
   \<and> ((isSuccess r \<or> hasError r) \<longleftrightarrow> r \<noteq> (JNull, JNull))"
  by (cases r) (auto simp: isSuccess_def hasError_def Ok_def Err_def)

theorem C1_success_failure_disjoint_witness:
  "JNum 5 \<noteq> JNull \<and> isSuccess (Ok (JNum 5)) \<and> \<not> hasError (Ok (JNum 5))
   \<and> JStr ''boom'' \<noteq> JNull \<and> hasError (Err (JStr ''boom'')) \<and> \<not> isSuccess (Err (JStr ''boom''))
   \<and> \<not> (isSuccess (JNum 5, JNull) \<and> hasError (JNum 5, JNull))
   \<and> (isSuccess (JNum 5, JNull) \<or> hasError (JNum 5, JNull))"
  using C1_success_failure_disjoint [of "JNum 5" "JStr ''boom''" "(JNum 5, JNull)"]
  by simp

section \<open>Properties of \<open>combine\<close>\<close>

text \<open>
  C6: \<open>combine\<close> returns \<open>Ok\<close> of the values, in input order, exactly when every
  tuple of the list is a success (its error slot is \<open>null\<close>); otherwise it returns the
  first failure of a left-to-right scan, whatever follows it; \<open>combine([])\<close> is
  \<open>Ok([])\<close>.
\<close>

theorem C6_combine_first_failure_wins:
  "((\<forall>r\<in>set rs. \<not> hasError r) \<longrightarrow> combine rs = Ok (JArr (map fst rs)))
   \<and> (combine rs = Ok (JArr (map fst rs)) \<longrightarrow> (\<forall>r\<in>set rs. \<not> hasError r))
   \<and> ((\<forall>p\<in>set pre. \<not> hasError p) \<and> hasError f \<longrightarrow> combine (pre @ f # post) = Err (snd f))
   \<and> combine [] = Ok (JArr [])"
proof -
  have ok: "combine rs = Ok (JArr (map fst rs))" if "\<forall>r\<in>set rs. \<not> hasError r"
    using that combine_loop_all_ok [of rs "[]"] by (simp add: combine_def hasError_def)
  have only_ok: "\<forall>r\<in>set rs. \<not> hasError r" if "combine rs = Ok (JArr (map fst rs))"
  proof -
    have "\<not> hasError (combine rs)" using that by (simp add: hasError_def Ok_def)
    then show ?thesis by (simp add: combine_def combine_loop_hasError)
  qed
  have first: "combine (pre @ f # post) = Err (snd f)"
    if "\<forall>p\<in>set pre. \<not> hasError p" "hasError f"
    using that combine_loop_first_failure [of pre f "[]" post]
    by (simp add: combine_def hasError_def)
  have "combine [] = Ok (JArr [])" by (simp add: combine_def)
  with ok only_ok first show ?thesis by blast
qed

theorem C6_combine_first_failure_wins_witness:
  "\<not> hasError (Ok (JNum 1)) \<and> \<not> hasError (Ok (JNum 2))
   \<and> combine [Ok (JNum 1), Ok (JNum 2)] = Ok (JArr [JNum 1, JNum 2])
   \<and> hasError (Err (JStr ''e''))
   \<and> combine [Ok (JNum 1), Err (JStr ''e''), Ok (JNum 2)] = Err (JStr ''e'')
   \<and> combine [] = Ok (JArr [])"
  using C6_combine_first_failure_wins
          [of "[Ok (JNum 1), Ok (JNum 2)]" "[Ok (JNum 1)]" "Err (JStr ''e'')" "[Ok (JNum 2)]"]
  by (simp add: hasError_def Ok_def Err_def)

section \<open>Properties of the error taxonomy\<close>

text \<open>
  C10: whatever message and context the caller supplies, each error kind's constructor
  stamps its own code and status code over the caller's, sets the timestamp to the clock
  reading at construction, and sets the recoverability flag: \<open>false\<close> for
  \<open>InternalError\<close>, \<open>true\<close> for the seven other kinds.
\<close>

theorem C10_kind_pins_code_and_status:
  "map_option (\<lambda>c. (code c, statusCode c, timestamp c)) (contextObject (ValidationError now trace msg ctx orig))
     = Some (Some ''VALIDATION_ERROR'', Some 400, Some now)
   \<and> map_option (\<lambda>c. (code c, statusCode c, timestamp c)) (contextObject (NotFoundError now trace msg ctx orig))
     = Some (Some ''NOT_FOUND'', Some 404, Some now)
   \<and> map_option (\<lambda>c. (code c, statusCode c, timestamp c)) (contextObject (UnauthorizedError now trace msg ctx orig))
     = Some (Some ''UNAUTHORIZED'', Some 401, Some now)
   \<and> map_option (\<lambda>c. (code c, statusCode c, timestamp c)) (contextObject (ForbiddenError now trace msg ctx orig))
     = Some (Some ''FORBIDDEN'', Some 403, Some now)
   \<and> map_option (\<lambda>c. (code c, statusCode c, timestamp c)) (contextObject (ConflictError now trace msg ctx orig))
     = Some (Some ''CONFLICT'', Some 409, Some now)
   \<and> map_option (\<lambda>c. (code c, statusCode c, timestamp c)) (contextObject (InternalError now trace msg ctx orig))
     = Some (Some ''INTERNAL_ERROR'', Some 500, Some now)
   \<and> map_option (\<lambda>c. (code c, statusCode c, timestamp c)) (contextObject (ExternalServiceError now trace msg ctx orig))
     = Some (Some ''EXTERNAL_SERVICE_ERROR'', Some 502, Some now)
   \<and> map_option (\<lambda>c. (code c, statusCode c, timestamp c)) (contextObject (TimeoutError now trace msg ctx orig))
     = Some (Some ''TIMEOUT'', Some 408, Some now)
   \<and> isOperational (InternalError now trace msg ctx orig) = Some False
   \<and> isOperational (ValidationError now trace msg ctx orig) = Some True
   \<and> isOperational (NotFoundError now trace msg ctx orig) = Some True
   \<and> isOperational (UnauthorizedError now trace msg ctx orig) = Some True
   \<and> isOperational (ForbiddenError now trace msg ctx orig) = Some True
   \<and> isOperational (ConflictError now trace msg ctx orig) = Some True
   \<and> isOperational (ExternalServiceError now trace msg ctx orig) = Some True
   \<and> isOperational (TimeoutError now trace msg ctx orig) = Some True
   \<and> map_option timestamp (contextObject (AppError k now trace msg ctx orig isOp)) = Some (Some now)"
  by (simp add: ValidationError_def NotFoundError_def UnauthorizedError_def ForbiddenError_def
        ConflictError_def InternalError_def ExternalServiceError_def TimeoutError_def
        AppError_def withTimestamp_def withCode_def spreadContext_def Let_def contextObject_def)

theorem C10_kind_pins_code_and_status_witness:
  "map_option (\<lambda>c. (code c, statusCode c, timestamp c, metadata c))
     (contextObject (ValidationError ''2026-01-01T00:00:00.000Z'' None ''bad email''
        (Some (ErrorContext (Some ''MINE'') (Some 200)
                 (Some [(''field'', JStr ''email'')]) None (Some ''1999-12-31T00:00:00.000Z'') None))
        None))
   = Some (Some ''VALIDATION_ERROR'', Some 400, Some ''2026-01-01T00:00:00.000Z'',
           Some [(''field'', JStr ''email'')])"
  using C10_kind_pins_code_and_status
          [of "''2026-01-01T00:00:00.000Z''" None "''bad email''"
              "Some (ErrorContext (Some ''MINE'') (Some 200)
                 (Some [(''field'', JStr ''email'')]) None (Some ''1999-12-31T00:00:00.000Z'') None)"
              None]
  by (simp add: ValidationError_def AppError_def withTimestamp_def withCode_def
        spreadContext_def Let_def contextObject_def)

section \<open>Properties of \<open>enhanceError\<close>\<close>

text \<open>
  C8 (as stated, refuted): every error without structured context is promoted. The test
  is \<open>'context' in error\<close>: an \<open>Error\<close> whose \<open>context\<close> property exists with the
  value \<open>undefined\<close> carries no structured context, and \<open>enhanceError\<close> returns it as
  it is, a plain \<open>Error\<close> still, ignoring the context it was given.
\<close>

theorem C8_counterexample:
  "contextObject (JsError ErrorClass ''Error'' ''boom'' None Undefined None None) = None
   \<and> enhanceError ''2026-01-01T00:00:00.000Z'' None
        (JsError ErrorClass ''Error'' ''boom'' None Undefined None None)
        (Some (ErrorContext None None None None None (Some ''load user'')))
       = JsError ErrorClass ''Error'' ''boom'' None Undefined None None
   \<and> \<not> isAppError
          (enhanceError ''2026-01-01T00:00:00.000Z'' None
             (JsError ErrorClass ''Error'' ''boom'' None Undefined None None)
             (Some (ErrorContext None None None None None (Some ''load user''))))"
  by (simp add: enhanceError_def contextObject_def isAppError_def)

text \<open>
  C8 (amended): \<open>enhanceError\<close> returns every error that has a \<open>context\<close> property,
  whatever its value (\<open>undefined\<close> included), unchanged; it promotes every error that
  has no \<open>context\<close> property to an \<open>AppError\<close> whose context is the given one with
  the timestamp, which keeps the message and holds the original as \<open>originalError\<close>;
  its result always has a \<open>context\<close> property, so applying it a second time, whatever
  the second context, clock reading and trace, changes nothing.
\<close>

theorem C8_enhanceError_idempotent:
  "(errContext e \<noteq> Absent \<longrightarrow> enhanceError now trace e ctx = e)
   \<and> (errContext e = Absent \<longrightarrow>
        enhanceError now trace e ctx = AppError AppErrorClass now trace (message e) ctx (Some e) True
        \<and> isAppError (enhanceError now trace e ctx)
        \<and> message (enhanceError now trace e ctx) = message e
        \<and> contextObject (enhanceError now trace e ctx) = Some (withTimestamp now ctx)
        \<and> originalError (enhanceError now trace e ctx) = Some e)
   \<and> errContext (enhanceError now trace e ctx) \<noteq> Absent
   \<and> enhanceError now' trace' (enhanceError now trace e ctx) ctx' = enhanceError now trace e ctx"
  by (simp add: enhanceError_def AppError_def isAppError_def contextObject_def)

theorem C8_enhanceError_idempotent_witness:
  "errContext (NotFoundError ''t0'' None ''gone'' None None) \<noteq> Absent
   \<and> enhanceError ''t1'' None (NotFoundError ''t0'' None ''gone'' None None) None
       = NotFoundError ''t0'' None ''gone'' None None
   \<and> errContext (JsError ErrorClass ''Error'' ''boom'' None Absent None None) = Absent
   \<and> isAppError (enhanceError ''t1'' None (JsError ErrorClass ''Error'' ''boom'' None Absent None None) None)
   \<and> originalError (enhanceError ''t1'' None (JsError ErrorClass ''Error'' ''boom'' None Absent None None) None)
       = Some (JsError ErrorClass ''Error'' ''boom'' None Absent None None)
   \<and> enhanceError ''t2'' None
        (enhanceError ''t1'' None (JsError ErrorClass ''Error'' ''boom'' None Absent None None) None) None
       = enhanceError ''t1'' None (JsError ErrorClass ''Error'' ''boom'' None Absent None None) None"
  using C8_enhanceError_idempotent
          [where e = "NotFoundError ''t0'' None ''gone'' None None" and now = "''t1''"
             and trace = None and ctx = None and now' = "''t2''" and trace' = None and ctx' = None]
        C8_enhanceError_idempotent
          [where e = "JsError ErrorClass ''Error'' ''boom'' None Absent None None" and now = "''t1''"
             and trace = None and ctx = None and now' = "''t2''" and trace' = None and ctx' = None]
  by (simp add: NotFoundError_def AppError_def enhanceError_def isAppError_def)

section \<open>Properties of the logger and the exception filter\<close>

text \<open>
  C2 (as stated, refuted): an error that carries no recoverability flag is logged at the
  fatal severity. A plain \<open>Error\<close> raised in production reaches \<open>logError\<close> with
  \<open>isOperational\<close> undefined; \<open>undefined === false\<close> is false, so the call goes to
  \<open>logger.error\<close>, the operational severity.
\<close>

theorem C2_counterexample:
  "isOperational (JsError ErrorClass ''Error'' ''boom'' (Some ''at x.ts:1'') Absent None None) = None
   \<and> map_option level
        (loggedCall
          (GoStyleExceptionFilter_catch errorLogger (Some ''production'') ''2026-01-01T00:00:00.000Z''
             \<lparr>url = ''/users/1'', reqMethod = ''GET''\<rparr>
             (JsError ErrorClass ''Error'' ''boom'' (Some ''at x.ts:1'') Absent None None)))
       = Some ErrorLevel
   \<and> ErrorLevel \<noteq> Fatal"
  by (simp add: catch_errorLogger loggedCall_def logError_level)

text \<open>
  C2 (amended): an error that carries no recoverability flag is not operational for
  \<open>isOperationalError\<close>, and \<open>logError\<close> logs it at the \<open>error\<close> severity with
  the message \<open>Operational Error\<close>; the \<open>fatal\<close> severity is used exactly for an
  error whose \<open>isOperational\<close> is \<open>false\<close>. The filter on an \<open>ErrorLogger\<close> logs
  exactly this call, and what sets an unexpected error apart in it is the property
  \<open>isUnexpected: true\<close> of the log object, present exactly when the error is not an
  \<open>AppError\<close>.
\<close>

theorem C2_unflagged_error_logging:
  "(isOperational e = None \<longrightarrow>
      \<not> isOperationalError (JErr e)
      \<and> level (logError e extra) = ErrorLevel
      \<and> logMessage (logError e extra) = ''Operational Error'')
   \<and> (level (logError e extra) = Fatal \<longleftrightarrow> isOperational e = Some False)
   \<and> loggedCall (GoStyleExceptionFilter_catch errorLogger env now req e)
       = Some (logError e (logContext req e))
   \<and> (map_of (logObject (logError e (logContext req e))) ''isUnexpected'' = Some (LValue (JBool True))
        \<longleftrightarrow> \<not> isAppError e)"
proof -
  have flag: "map_of (logObject (logError e (logContext req e))) ''isUnexpected''
                = Some (LValue (JBool True)) \<longleftrightarrow> \<not> isAppError e"
    using logError_unexpected [of e req] logError_expected [of e req] by auto
  show ?thesis
    by (simp add: flag logError_level logError_message catch_errorLogger loggedCall_def)
qed

theorem C2_unflagged_error_logging_witness:
  "isOperational (JsError ErrorClass ''Error'' ''boom'' None Absent None None) = None
   \<and> \<not> isOperationalError (JErr (JsError ErrorClass ''Error'' ''boom'' None Absent None None))
   \<and> level (logError (JsError ErrorClass ''Error'' ''boom'' None Absent None None) []) = ErrorLevel
   \<and> logMessage (logError (JsError ErrorClass ''Error'' ''boom'' None Absent None None) [])
       = ''Operational Error''"
  using C2_unflagged_error_logging
          [of "JsError ErrorClass ''Error'' ''boom'' None Absent None None" "[]"]
  by simp

text \<open>
  C3 (as stated, refuted): in production a non-recoverable failure is rendered with a
  generic message. An \<open>InternalError\<close> (\<open>isOperational = false\<close>) raised in
  production is rendered with status 500 and its own message.
\<close>

theorem C3_counterexample:
  "isOperational
     (InternalError ''2026-01-01T00:00:00.000Z'' (Some ''at db.ts:10'')
        ''connection to 10.0.0.7:5432 refused'' None None) = Some False
   \<and> map_option (\<lambda>r. (status r, errorField (body r) ''message''))
        (sentResponse
          (GoStyleExceptionFilter_catch errorLogger (Some ''production'') ''2026-01-01T00:00:01.000Z''
             \<lparr>url = ''/users/1'', reqMethod = ''GET''\<rparr>
             (InternalError ''2026-01-01T00:00:00.000Z'' (Some ''at db.ts:10'')
                ''connection to 10.0.0.7:5432 refused'' None None)))
       = Some (500, Some (JStr ''connection to 10.0.0.7:5432 refused''))"
  by (simp add: catch_errorLogger sentResponse_def errorField_errorResponse classify_AppError
        isAppError_def InternalError_def AppError_def withTimestamp_def withCode_def
        spreadContext_def Let_def contextObject_def)

text \<open>
  C3 (amended): in every build, production included, the filter renders every
  \<open>AppError\<close>, recoverable or not, with the error's own message, with the status code
  of its context when the context holds one other than 0 and 500 otherwise, with the
  code of its context when the context holds one other than the empty string and
  \<open>INTERNAL_ERROR\<close> otherwise, and with its metadata when the context holds metadata
  that is not empty. An error that is neither an \<open>AppError\<close> nor an
  \<open>HttpException\<close> is rendered with the generic message \<open>Internal server error\<close>,
  status 500 and code \<open>INTERNAL_ERROR\<close>, in every build.
\<close>

theorem C3_AppError_rendered_verbatim:
  "(isAppError e \<longrightarrow>
      (\<exists>l r. GoStyleExceptionFilter_catch errorLogger env now req e = Inr (l, r)
         \<and> errorField (body r) ''message'' = Some (JStr (message e))
         \<and> status r
             = (case contextObject e of
                  Some c \<Rightarrow> (case statusCode c of Some n \<Rightarrow> if n \<noteq> 0 then n else 500 | None \<Rightarrow> 500)
                | None \<Rightarrow> 500)
         \<and> errorField (body r) ''statusCode'' = Some (JNum (status r))
         \<and> errorField (body r) ''code''
             = Some (case contextObject e of
                       Some c \<Rightarrow>
                         (case code c of
                            Some s \<Rightarrow> if s \<noteq> [] then JStr s else JStr ''INTERNAL_ERROR''
                          | None \<Rightarrow> JStr ''INTERNAL_ERROR'')
                     | None \<Rightarrow> JStr ''INTERNAL_ERROR'')
         \<and> errorField (body r) ''context''
             = (case contextObject e of
                  Some c \<Rightarrow>
                    (case metadata c of
                       Some m \<Rightarrow> if m \<noteq> [] then Some (JObj m) else None
                     | None \<Rightarrow> None)
                | None \<Rightarrow> None)))
   \<and> (cls e = ErrorClass \<longrightarrow>
      (\<exists>l r. GoStyleExceptionFilter_catch errorLogger env now req e = Inr (l, r)
         \<and> status r = 500
         \<and> errorField (body r) ''statusCode'' = Some (JNum 500)
         \<and> errorField (body r) ''code'' = Some (JStr ''INTERNAL_ERROR'')
         \<and> errorField (body r) ''message'' = Some (JStr ''Internal server error'')
         \<and> errorField (body r) ''context'' = None))"
proof -
  have app: "\<exists>l r. GoStyleExceptionFilter_catch errorLogger env now req e = Inr (l, r)
         \<and> errorField (body r) ''message'' = Some (JStr (message e))
         \<and> status r
             = (case contextObject e of
                  Some c \<Rightarrow> (case statusCode c of Some n \<Rightarrow> if n \<noteq> 0 then n else 500 | None \<Rightarrow> 500)
                | None \<Rightarrow> 500)
         \<and> errorField (body r) ''statusCode'' = Some (JNum (status r))
         \<and> errorField (body r) ''code''
             = Some (case contextObject e of
                       Some c \<Rightarrow>
                         (case code c of
                            Some s \<Rightarrow> if s \<noteq> [] then JStr s else JStr ''INTERNAL_ERROR''
                          | None \<Rightarrow> JStr ''INTERNAL_ERROR'')
                     | None \<Rightarrow> JStr ''INTERNAL_ERROR'')
         \<and> errorField (body r) ''context''
             = (case contextObject e of
                  Some c \<Rightarrow>
                    (case metadata c of
                       Some m \<Rightarrow> if m \<noteq> [] then Some (JObj m) else None
                     | None \<Rightarrow> None)
                | None \<Rightarrow> None)"
    if "isAppError e"
    using that
    by (simp add: catch_errorLogger errorField_errorResponse classify_AppError
          split: option.splits)
  have plain: "\<exists>l r. GoStyleExceptionFilter_catch errorLogger env now req e = Inr (l, r)
         \<and> status r = 500
         \<and> errorField (body r) ''statusCode'' = Some (JNum 500)
         \<and> errorField (body r) ''code'' = Some (JStr ''INTERNAL_ERROR'')
         \<and> errorField (body r) ''message'' = Some (JStr ''Internal server error'')
         \<and> errorField (body r) ''context'' = None"
    if "cls e = ErrorClass"
    using that by (simp add: catch_errorLogger errorField_errorResponse classify_plain)
  from app plain show ?thesis by blast
qed

theorem C3_AppError_rendered_verbatim_witness:
  "isAppError (InternalError ''t0'' None ''connection to 10.0.0.7:5432 refused''
                 (Some (ErrorContext None None (Some [(''host'', JStr ''10.0.0.7'')]) None None None)) None)
   \<and> (\<exists>l r. GoStyleExceptionFilter_catch errorLogger (Some ''production'') ''t1''
                \<lparr>url = ''/users/1'', reqMethod = ''GET''\<rparr>
                (InternalError ''t0'' None ''connection to 10.0.0.7:5432 refused''
                   (Some (ErrorContext None None (Some [(''host'', JStr ''10.0.0.7'')]) None None None))
                   None) = Inr (l, r)
         \<and> status r = 500
         \<and> errorField (body r) ''code'' = Some (JStr ''INTERNAL_ERROR'')
         \<and> errorField (body r) ''message'' = Some (JStr ''connection to 10.0.0.7:5432 refused'')
         \<and> errorField (body r) ''context'' = Some (JObj [(''host'', JStr ''10.0.0.7'')]))
   \<and> isAppError (AppError AppErrorClass ''t0'' None ''quota exceeded''
                   (Some (ErrorContext (Some []) (Some 0) None None None None)) None True)
   \<and> (\<exists>l r. GoStyleExceptionFilter_catch errorLogger (Some ''production'') ''t1''
                \<lparr>url = ''/users/1'', reqMethod = ''GET''\<rparr>
                (AppError AppErrorClass ''t0'' None ''quota exceeded''
                   (Some (ErrorContext (Some []) (Some 0) None None None None)) None True) = Inr (l, r)
         \<and> status r = 500
         \<and> errorField (body r) ''code'' = Some (JStr ''INTERNAL_ERROR'')
         \<and> errorField (body r) ''message'' = Some (JStr ''quota exceeded'')
         \<and> errorField (body r) ''context'' = None)
   \<and> cls (JsError ErrorClass ''TypeError'' ''x is undefined'' None Absent None None) = ErrorClass
   \<and> (\<exists>l r. GoStyleExceptionFilter_catch errorLogger None ''t1''
                \<lparr>url = ''/users/1'', reqMethod = ''GET''\<rparr>
                (JsError ErrorClass ''TypeError'' ''x is undefined'' None Absent None None) = Inr (l, r)
         \<and> status r = 500
         \<and> errorField (body r) ''message'' = Some (JStr ''Internal server error''))"
  using C3_AppError_rendered_verbatim
          [where e = "InternalError ''t0'' None ''connection to 10.0.0.7:5432 refused''
                 (Some (ErrorContext None None (Some [(''host'', JStr ''10.0.0.7'')]) None None None)) None"
             and env = "Some ''production''"
             and now = "''t1''" and req = "\<lparr>url = ''/users/1'', reqMethod = ''GET''\<rparr>"]
        C3_AppError_rendered_verbatim
          [where e = "AppError AppErrorClass ''t0'' None ''quota exceeded''
                   (Some (ErrorContext (Some []) (Some 0) None None None None)) None True"
             and env = "Some ''production''"
             and now = "''t1''" and req = "\<lparr>url = ''/users/1'', reqMethod = ''GET''\<rparr>"]
        C3_AppError_rendered_verbatim
          [where e = "JsError ErrorClass ''TypeError'' ''x is undefined'' None Absent None None"
             and env = None and now = "''t1''"
             and req = "\<lparr>url = ''/users/1'', reqMethod = ''GET''\<rparr>"]
  by (auto simp: InternalError_def AppError_def withTimestamp_def withCode_def spreadContext_def
        Let_def isAppError_def contextObject_def)

text \<open>
  C4 (as stated, refuted): the response is sent even if the logging collaborator raises.
  \<open>catch\<close> calls \<open>this.logger.logError\<close> outside any \<open>try\<close> and before
  \<open>response.status(status).json(errorResponse)\<close>; with a logger that raises, the
  raised value leaves \<open>catch\<close> and nothing is sent.
\<close>

theorem C4_counterexample:
  "GoStyleExceptionFilter_catch
     failingLogger
     (Some ''production'') ''2026-01-01T00:00:01.000Z''
     \<lparr>url = ''/users/999'', reqMethod = ''GET''\<rparr>
     (NotFoundError ''2026-01-01T00:00:00.000Z'' None ''User not found'' None None)
   = Inl (JStr ''logger unavailable'')
   \<and> sentResponse
        (GoStyleExceptionFilter_catch
           failingLogger
           (Some ''production'') ''2026-01-01T00:00:01.000Z''
           \<lparr>url = ''/users/999'', reqMethod = ''GET''\<rparr>
           (NotFoundError ''2026-01-01T00:00:00.000Z'' None ''User not found'' None None))
      = None"
  by (simp add: GoStyleExceptionFilter_catch_def sentResponse_def failingLogger_def)

text \<open>
  C4 (amended): the filter sends the canonical failure response, with the transport
  status equal to \<open>error.statusCode\<close>, exactly when the logging call returns; a value
  raised by the logging call propagates out of \<open>catch\<close> and no response is sent.
\<close>

theorem C4_response_sent_when_logger_returns:
  "(logger e (logContext req e) = Inr l \<longrightarrow>
      GoStyleExceptionFilter_catch logger env now req e
        = Inr (l, \<lparr>status = fst (classify e), body = errorResponse env now req e\<rparr>)
      \<and> errorField (errorResponse env now req e) ''statusCode'' = Some (JNum (fst (classify e)))
      \<and> (case errorResponse env now req e of JObj ps \<Rightarrow> map_of ps ''success'' | _ \<Rightarrow> None)
          = Some (JBool False))
   \<and> (logger e (logContext req e) = Inl x \<longrightarrow>
      GoStyleExceptionFilter_catch logger env now req e = Inl x
      \<and> sentResponse (GoStyleExceptionFilter_catch logger env now req e) = None)
   \<and> (sentResponse (GoStyleExceptionFilter_catch logger env now req e) \<noteq> None
        \<longleftrightarrow> (\<exists>l'. logger e (logContext req e) = Inr l'))"
  by (cases "logger e (logContext req e)")
     (simp_all add: GoStyleExceptionFilter_catch_def sentResponse_def errorField_errorResponse
        errorResponse_success_false)

theorem C4_response_sent_when_logger_returns_witness:
  "errorLogger (NotFoundError ''t0'' None ''User not found'' None None)
     (logContext \<lparr>url = ''/users/999'', reqMethod = ''GET''\<rparr>
        (NotFoundError ''t0'' None ''User not found'' None None))
     = Inr (logError (NotFoundError ''t0'' None ''User not found'' None None)
              (logContext \<lparr>url = ''/users/999'', reqMethod = ''GET''\<rparr>
                 (NotFoundError ''t0'' None ''User not found'' None None)))
   \<and> map_option status
        (sentResponse
           (GoStyleExceptionFilter_catch errorLogger (Some ''production'') ''t1''
              \<lparr>url = ''/users/999'', reqMethod = ''GET''\<rparr>
              (NotFoundError ''t0'' None ''User not found'' None None)))
      = Some 404"
  using C4_response_sent_when_logger_returns
          [of errorLogger "NotFoundError ''t0'' None ''User not found'' None None"
              "\<lparr>url = ''/users/999'', reqMethod = ''GET''\<rparr>"
              "logError (NotFoundError ''t0'' None ''User not found'' None None)
                 (logContext \<lparr>url = ''/users/999'', reqMethod = ''GET''\<rparr>
                    (NotFoundError ''t0'' None ''User not found'' None None))"
              "Some ''production''" "''t1''"]
  by (simp add: errorLogger_def sentResponse_def classify_AppError isAppError_def
        NotFoundError_def AppError_def withTimestamp_def withCode_def spreadContext_def Let_def
        contextObject_def)

text \<open>
  C7 (as stated, refuted): every non-production response contains the error's stack
  trace. \<open>stack\<close> is an optional property of an \<open>Error\<close>; for an error without one
  the envelope's \<open>stack\<close> property holds \<open>undefined\<close>, so the response carries no
  trace (and its JSON text no \<open>stack\<close> at all).
\<close>

theorem C7_counterexample:
  "stack (JsError ErrorClass ''Error'' ''boom'' None Absent None None) = None
   \<and> map_option (\<lambda>r. (errorField (body r) ''stack'', stackTrace (body r)))
        (sentResponse
           (GoStyleExceptionFilter_catch errorLogger (Some ''development'')
              ''2026-01-01T00:00:00.000Z'' \<lparr>url = ''/users/1'', reqMethod = ''GET''\<rparr>
              (JsError ErrorClass ''Error'' ''boom'' None Absent None None)))
       = Some (Some JUndefined, None)"
  by (simp add: catch_errorLogger sentResponse_def stackTrace_def errorField_stack stackValue_def)

text \<open>
  C7 (amended): in every response the filter sends, the error body has a \<open>stack\<close>
  property exactly when \<open>NODE_ENV\<close> is not \<open>production\<close>; never in production. In a
  non-production response the property holds \<open>exception.stack\<close>: the trace \<open>s\<close> of an
  error that has one, \<open>undefined\<close> for an error that has none. So the response
  carries the error's trace exactly when the build is not production and the error has
  a stack, and a production response body does not depend on the stack at all.
\<close>

theorem C7_stack_only_outside_production:
  "(GoStyleExceptionFilter_catch logger env now req e = Inr (l, r) \<longrightarrow>
      (errorField (body r) ''stack'' \<noteq> None \<longleftrightarrow> env \<noteq> Some ''production'')
      \<and> (env = Some ''production'' \<longrightarrow> errorField (body r) ''stack'' = None)
      \<and> (env \<noteq> Some ''production'' \<and> stack e = Some s \<longrightarrow>
           errorField (body r) ''stack'' = Some (JStr s))
      \<and> (env \<noteq> Some ''production'' \<and> stack e = None \<longrightarrow>
           errorField (body r) ''stack'' = Some JUndefined)
      \<and> stackTrace (body r) = (if env \<noteq> Some ''production'' then stack e else None))
   \<and> errorResponse (Some ''production'') now req (JsError c n m trace ctx orig isOp)
       = errorResponse (Some ''production'') now req (JsError c n m trace' ctx orig isOp)"
proof -
  have sent: "(errorField (body r) ''stack'' \<noteq> None \<longleftrightarrow> env \<noteq> Some ''production'')
      \<and> (env = Some ''production'' \<longrightarrow> errorField (body r) ''stack'' = None)
      \<and> (env \<noteq> Some ''production'' \<and> stack e = Some s \<longrightarrow>
           errorField (body r) ''stack'' = Some (JStr s))
      \<and> (env \<noteq> Some ''production'' \<and> stack e = None \<longrightarrow>
           errorField (body r) ''stack'' = Some JUndefined)
      \<and> stackTrace (body r) = (if env \<noteq> Some ''production'' then stack e else None)"
    if "GoStyleExceptionFilter_catch logger env now req e = Inr (l, r)"
    using catch_sent [OF that]
    by (cases "stack e") (simp_all add: errorField_stack stackTrace_def stackValue_def)
  have same: "classify (JsError c n m trace ctx orig isOp) = classify (JsError c n m trace' ctx orig isOp)"
    by (cases c) (simp_all add: classify_def httpExceptionFields_def isAppError_def contextObject_def)
  have "errorResponse (Some ''production'') now req (JsError c n m trace ctx orig isOp)
       = errorResponse (Some ''production'') now req (JsError c n m trace' ctx orig isOp)"
    by (simp add: errorResponse_def same)
  with sent show ?thesis by blast
qed

theorem C7_stack_only_outside_production_witness:
  "(\<exists>l r. GoStyleExceptionFilter_catch errorLogger (Some ''production'') ''t1''
             \<lparr>url = ''/users/1'', reqMethod = ''GET''\<rparr>
             (InternalError ''t0'' (Some ''at db.ts:10'') ''db down'' None None) = Inr (l, r)
           \<and> errorField (body r) ''stack'' = None
           \<and> stackTrace (body r) = None)
   \<and> stack (InternalError ''t0'' (Some ''at db.ts:10'') ''db down'' None None) = Some ''at db.ts:10''
   \<and> (\<exists>l r. GoStyleExceptionFilter_catch errorLogger (Some ''development'') ''t1''
             \<lparr>url = ''/users/1'', reqMethod = ''GET''\<rparr>
             (InternalError ''t0'' (Some ''at db.ts:10'') ''db down'' None None) = Inr (l, r)
           \<and> errorField (body r) ''stack'' = Some (JStr ''at db.ts:10'')
           \<and> stackTrace (body r) = Some ''at db.ts:10'')"
  using C7_stack_only_outside_production
          [where logger = errorLogger and env = "Some ''production''" and now = "''t1''"
             and req = "\<lparr>url = ''/users/1'', reqMethod = ''GET''\<rparr>"
             and e = "InternalError ''t0'' (Some ''at db.ts:10'') ''db down'' None None"
             and l = "logError (InternalError ''t0'' (Some ''at db.ts:10'') ''db down'' None None)
                 (logContext \<lparr>url = ''/users/1'', reqMethod = ''GET''\<rparr>
                    (InternalError ''t0'' (Some ''at db.ts:10'') ''db down'' None None))"
             and r = "\<lparr>status = fst (classify (InternalError ''t0'' (Some ''at db.ts:10'') ''db down'' None None)),
                body = errorResponse (Some ''production'') ''t1'' \<lparr>url = ''/users/1'', reqMethod = ''GET''\<rparr>
                         (InternalError ''t0'' (Some ''at db.ts:10'') ''db down'' None None)\<rparr>"
             and s = "''at db.ts:10''"]
        C7_stack_only_outside_production
          [where logger = errorLogger and env = "Some ''development''" and now = "''t1''"
             and req = "\<lparr>url = ''/users/1'', reqMethod = ''GET''\<rparr>"
             and e = "InternalError ''t0'' (Some ''at db.ts:10'') ''db down'' None None"
             and l = "logError (InternalError ''t0'' (Some ''at db.ts:10'') ''db down'' None None)
                 (logContext \<lparr>url = ''/users/1'', reqMethod = ''GET''\<rparr>
                    (InternalError ''t0'' (Some ''at db.ts:10'') ''db down'' None None))"
             and r = "\<lparr>status = fst (classify (InternalError ''t0'' (Some ''at db.ts:10'') ''db down'' None None)),
                body = errorResponse (Some ''development'') ''t1'' \<lparr>url = ''/users/1'', reqMethod = ''GET''\<rparr>
                         (InternalError ''t0'' (Some ''at db.ts:10'') ''db down'' None None)\<rparr>"
             and s = "''at db.ts:10''"]
  by (simp add: catch_errorLogger InternalError_def AppError_def)

section \<open>Properties of the result interceptor\<close>



text \<open>
  C9: every returned array of exactly two elements is read as a Result tuple: a second
  element other than \<open>null\<close> (\<open>undefined\<close> included) is thrown, and otherwise
  the first element alone becomes the payload; the result is never the envelope around
  the array itself.
\<close>

theorem C9_two_element_array_is_a_tuple:
  "ResultInterceptor_intercept now (Inr (JArr [d, e]))
     = (if e \<noteq> JNull then Inl e else Inr (successResponse d now))
   \<and> ResultInterceptor_intercept now (Inr (JArr [d, e])) \<noteq> Inr (successResponse (JArr [d, e]) now)"
  using jsval_not_in_own_array [of d e]
  by (auto simp: intercept_returned transformResult_pair successResponse_def)

theorem C9_two_element_array_is_a_tuple_witness:
  "ResultInterceptor_intercept ''t1'' (Inr (JArr [JNum 10, JNum 20])) = Inl (JNum 20)
   \<and> ResultInterceptor_intercept ''t1'' (Inr (JArr [JStr ''lat'', JNull]))
       = Inr (JObj [(''success'', JBool True), (''data'', JStr ''lat''), (''timestamp'', JStr ''t1'')])
   \<and> ResultInterceptor_intercept ''t1'' (Inr (JArr [JNum 1, JUndefined])) = Inl JUndefined"
  using C9_two_element_array_is_a_tuple [of "''t1''" "JNum 10" "JNum 20"]
        C9_two_element_array_is_a_tuple [of "''t1''" "JStr ''lat''" JNull]
        C9_two_element_array_is_a_tuple [of "''t1''" "JNum 1" JUndefined]
  by (simp add: successResponse_def)

end
